theory Spec2Isabelle
  imports Complex_Main "HOL-Library.Sublist"
begin

section \<open>Text: characters, case, whitespace\<close>

text \<open>
  A text is a \<open>string\<close>. The character classes are those of Python on ASCII code
  points: \<open>\d\<close> is \<open>0-9\<close>, \<open>\w\<close> is \<open>[A-Za-z0-9_]\<close>, and
  \<open>\s\<close> and \<open>str.split()\<close> share the whitespace set
  \<open>\t \n \x0b \x0c \r \x1c \x1d \x1e \x1f\<close> and the blank. Characters outside
  ASCII are in no class and have no case. Numbers are exact reals; the rounding error
  of binary floating point is not modelled.
\<close>

definition is_digit :: "char \<Rightarrow> bool" where
  "is_digit c = (c \<in> set ''0123456789'')"

definition is_upper :: "char \<Rightarrow> bool" where
  "is_upper c = (c \<in> set ''ABCDEFGHIJKLMNOPQRSTUVWXYZ'')"

definition is_lower :: "char \<Rightarrow> bool" where
  "is_lower c = (c \<in> set ''abcdefghijklmnopqrstuvwxyz'')"

definition is_alpha :: "char \<Rightarrow> bool" where
  "is_alpha c = (is_upper c \<or> is_lower c)"

definition is_word :: "char \<Rightarrow> bool" where
  "is_word c = (is_alpha c \<or> is_digit c \<or> c = CHR ''_'')"

definition is_space :: "char \<Rightarrow> bool" where
  "is_space c = (c \<in> set [CHR '' '', CHR 0x09, CHR 0x0A, CHR 0x0B, CHR 0x0C, CHR 0x0D,
                            CHR 0x1C, CHR 0x1D, CHR 0x1E, CHR 0x1F])"

definition lower_char :: "char \<Rightarrow> char" where
  "lower_char c =
     (case map_of (zip ''ABCDEFGHIJKLMNOPQRSTUVWXYZ'' ''abcdefghijklmnopqrstuvwxyz'') c of
        Some d \<Rightarrow> d | None \<Rightarrow> c)"

definition upper_char :: "char \<Rightarrow> char" where
  "upper_char c =
     (case map_of (zip ''abcdefghijklmnopqrstuvwxyz'' ''ABCDEFGHIJKLMNOPQRSTUVWXYZ'') c of
        Some d \<Rightarrow> d | None \<Rightarrow> c)"

text \<open>\<open>str.lower()\<close>.\<close>

definition lower :: "string \<Rightarrow> string" where
  "lower s = map lower_char s"

text \<open>\<open>str.isalpha()\<close>: non-empty and every character a letter.\<close>

definition isalpha :: "string \<Rightarrow> bool" where
  "isalpha s = (s \<noteq> [] \<and> list_all is_alpha s)"

text \<open>
  \<open>str.split()\<close> with no argument: the maximal runs of characters that are not
  whitespace, in order; no empty strings.
\<close>

function split_ws :: "string \<Rightarrow> string list" where
  "split_ws [] = []"
| "split_ws (c # cs) =
     (if is_space c then split_ws cs
      else (c # takeWhile (\<lambda>x. \<not> is_space x) cs)
             # split_ws (dropWhile (\<lambda>x. \<not> is_space x) cs))"
  by pat_completeness auto
termination
  by (relation "measure length") (auto simp add: less_Suc_eq_le length_dropWhile_le)

text \<open>
  \<open>str.title()\<close>: the first letter of every run of letters in upper case, the
  other letters in lower case, everything else unchanged.
\<close>

fun title_from :: "bool \<Rightarrow> string \<Rightarrow> string" where
  "title_from prev [] = []"
| "title_from prev (c # cs) =
     (if is_alpha c then (if prev then lower_char c else upper_char c) # title_from True cs
      else c # title_from False cs)"

definition title :: "string \<Rightarrow> string" where
  "title s = title_from False s"

section \<open>Regular expressions\<close>

text \<open>
  The patterns of the program use character classes, literals, \<open>\b\<close>, sequence,
  alternation, greedy repetition of a character class with no upper bound
  (\<open>+\<close>, \<open>*\<close>, \<open>{8,}\<close>) and greedy bounded repetition (\<open>?\<close>, \<open>{4}\<close>,
  \<open>{10,13}\<close>, \<open>{1,3}\<close>). \<open>Many P lo\<close> is \<open>[P]{lo,}\<close> and
  \<open>Upto r lo hi\<close> is \<open>r{lo,hi}\<close>.

  A matcher state is \<open>(p, acc, rest)\<close>: the character before the position (if
  any), the characters this match has consumed so far in reverse, and the text still
  ahead. \<open>rmatch r s\<close> lists the states in which a match of \<open>r\<close> from
  \<open>s\<close> can end, in the order in which a backtracking matcher tries them; the
  head of the list is the match that \<open>re\<close> reports.
\<close>

type_synonym st = "char option \<times> string \<times> string"

datatype rx =
    Chr "char \<Rightarrow> bool"
  | Eps
  | Bnd
  | Seq rx rx
  | Alt rx rx
  | Many "char \<Rightarrow> bool" nat
  | Upto rx nat nat

fun is_wordo :: "char option \<Rightarrow> bool" where
  "is_wordo None = False"
| "is_wordo (Some c) = is_word c"

fun nxt :: "string \<Rightarrow> char option" where
  "nxt [] = None"
| "nxt (c # cs) = Some c"

fun many :: "(char \<Rightarrow> bool) \<Rightarrow> nat \<Rightarrow> st \<Rightarrow> st list" where
  "many P lo (p, acc, []) = (if lo = 0 then [(p, acc, [])] else [])"
| "many P lo (p, acc, c # cs) =
     (if P c then many P (lo - 1) (Some c, c # acc, cs) else [])
     @ (if lo = 0 then [(p, acc, c # cs)] else [])"

fun upto_rx :: "(st \<Rightarrow> st list) \<Rightarrow> nat \<Rightarrow> nat \<Rightarrow> st \<Rightarrow> st list" where
  "upto_rx f lo 0 s = (if lo = 0 then [s] else [])"
| "upto_rx f lo (Suc h) s =
     concat (map (upto_rx f (lo - 1) h) (f s)) @ (if lo = 0 then [s] else [])"

fun chr_step :: "(char \<Rightarrow> bool) \<Rightarrow> st \<Rightarrow> st list" where
  "chr_step P (p, acc, []) = []"
| "chr_step P (p, acc, c # cs) = (if P c then [(Some c, c # acc, cs)] else [])"

fun bnd_step :: "st \<Rightarrow> st list" where
  "bnd_step (p, acc, cs) = (if is_wordo p \<noteq> is_wordo (nxt cs) then [(p, acc, cs)] else [])"

primrec rmatch :: "rx \<Rightarrow> st \<Rightarrow> st list" where
  "rmatch (Chr P) s = chr_step P s"
| "rmatch Eps s = [s]"
| "rmatch Bnd s = bnd_step s"
| "rmatch (Seq a b) s = concat (map (rmatch b) (rmatch a s))"
| "rmatch (Alt a b) s = rmatch a s @ rmatch b s"
| "rmatch (Many P lo) s = many P lo s"
| "rmatch (Upto r lo hi) s = upto_rx (rmatch r) lo hi s"

fun seqs :: "rx list \<Rightarrow> rx" where
  "seqs [] = Eps"
| "seqs [r] = r"
| "seqs (r # rs) = Seq r (seqs rs)"

text \<open>A literal, and a literal under \<open>re.I\<close>.\<close>

definition lit :: "string \<Rightarrow> rx" where
  "lit s = seqs (map (\<lambda>c. Chr (\<lambda>x. x = c)) s)"

definition liti :: "string \<Rightarrow> rx" where
  "liti s = seqs (map (\<lambda>c. Chr (\<lambda>x. lower_char x = lower_char c)) s)"

text \<open>
  \<open>re.search\<close>: the match at the leftmost position that has one, as the matched
  text; \<open>None\<close> when no position has a match.
\<close>

fun search_from :: "rx \<Rightarrow> char option \<Rightarrow> string \<Rightarrow> string option" where
  "search_from r p [] =
     (case rmatch r (p, [], []) of [] \<Rightarrow> None | (_, acc, _) # _ \<Rightarrow> Some (rev acc))"
| "search_from r p (c # cs) =
     (case rmatch r (p, [], c # cs) of
        [] \<Rightarrow> search_from r (Some c) cs
      | (_, acc, _) # _ \<Rightarrow> Some (rev acc))"

definition re_search :: "rx \<Rightarrow> string \<Rightarrow> string option" where
  "re_search r text = search_from r None text"

text \<open>
  \<open>re.findall\<close> (as the list of whole matches): scan from the left; a match of
  \<open>n\<close> characters is reported and the scan resumes right after it, which is
  \<open>n - 1\<close> characters after the next one (\<open>skip\<close> counts them down).
\<close>

fun findall_from :: "rx \<Rightarrow> nat \<Rightarrow> char option \<Rightarrow> string \<Rightarrow> string list" where
  "findall_from r skip p [] =
     (if skip = 0 then (case rmatch r (p, [], []) of [] \<Rightarrow> [] | _ # _ \<Rightarrow> [[]]) else [])"
| "findall_from r (Suc k) p (c # cs) = findall_from r k (Some c) cs"
| "findall_from r 0 p (c # cs) =
     (case rmatch r (p, [], c # cs) of
        [] \<Rightarrow> findall_from r 0 (Some c) cs
      | (_, acc, _) # _ \<Rightarrow> rev acc # findall_from r (length acc - 1) (Some c) cs)"

definition findall :: "rx \<Rightarrow> string \<Rightarrow> string list" where
  "findall r text = findall_from r 0 None text"

section \<open>ATS scoring\<close>

datatype feature =
  Keyword_Density | Action_Verbs | Quantifiable_Results | Structure | Contact_Info | Length

definition ATS_PARAMETERS :: "(feature \<times> real) list" where
  "ATS_PARAMETERS =
     [(Keyword_Density, 3 / 10), (Action_Verbs, 15 / 100), (Quantifiable_Results, 2 / 10),
      (Structure, 15 / 100), (Contact_Info, 1 / 10), (Length, 1 / 10)]"

definition ACTION_VERBS :: "string list" where
  "ACTION_VERBS =
     [''achieved'', ''managed'', ''developed'', ''led'', ''implemented'',
      ''increased'', ''reduced'', ''optimized'', ''created'', ''designed'']"

text \<open>\<open>\w+\<close>\<close>

definition word_re :: rx where
  "word_re = Many is_word 1"

text \<open>
  \<open>stop_words\<close> stands for \<open>stopwords.words('english')\<close>, the word list of the
  NLTK corpus, which is data outside the program.
\<close>

definition calculate_keyword_density :: "string list \<Rightarrow> string \<Rightarrow> real" where
  "calculate_keyword_density stop_words text =
     (let words = map lower (filter isalpha (findall word_re text));
          filtered_words = filter (\<lambda>word. word \<notin> set stop_words) words;
          word_counts = set filtered_words
      in min (real (card word_counts) / 50) 1)"

definition count_action_verbs :: "string \<Rightarrow> real" where
  "count_action_verbs text =
     (let verbs_found = filter (\<lambda>verb. sublist verb (lower text)) ACTION_VERBS
      in min (real (length verbs_found) / 5) 1)"

text \<open>\<open>\b(\d+%|\d+\+|\$?\d+\s?[km]?|\d+\s?(years|months))\b\<close> under \<open>re.I\<close>\<close>

definition quantifier_re :: rx where
  "quantifier_re =
     seqs [Bnd,
           Alt (Seq (Many is_digit 1) (Chr (\<lambda>c. c = CHR ''%'')))
          (Alt (Seq (Many is_digit 1) (Chr (\<lambda>c. c = CHR ''+'')))
          (Alt (seqs [Upto (Chr (\<lambda>c. c = CHR ''$'')) 0 1, Many is_digit 1,
                      Upto (Chr is_space) 0 1, Upto (Chr (\<lambda>c. c \<in> set ''kmKM'')) 0 1])
               (seqs [Many is_digit 1, Upto (Chr is_space) 0 1,
                      Alt (liti ''years'') (liti ''months'')]))),
           Bnd]"

definition check_quantifiable_results :: "string \<Rightarrow> real" where
  "check_quantifiable_results text =
     (let quantifiers = findall quantifier_re text
      in min (real (length quantifiers) / 3) 1)"

text \<open>\<open>\b{section}\b\<close> under \<open>re.I\<close>\<close>

definition section_re :: "string \<Rightarrow> rx" where
  "section_re section = seqs [Bnd, liti section, Bnd]"

text \<open>\<open>(\d{4})\s*-\s*(present|\d{4})\<close>\<close>

definition date_range_re :: rx where
  "date_range_re =
     seqs [Upto (Chr is_digit) 4 4, Many is_space 0, Chr (\<lambda>c. c = CHR ''-''), Many is_space 0,
           Alt (lit ''present'') (Upto (Chr is_digit) 4 4)]"

definition sections :: "string list" where
  "sections = [''experience'', ''education'', ''skills'', ''summary'', ''projects'']"

definition evaluate_structure :: "string \<Rightarrow> real" where
  "evaluate_structure text =
     (let structure_score =
            fold (\<lambda>section score.
                    if re_search (section_re section) text \<noteq> None then score + 2 / 10 else score)
                 sections 0;
          structure_score =
            (if re_search date_range_re text \<noteq> None then structure_score + 2 / 10
             else structure_score)
      in min structure_score 1)"

text \<open>\<open>[\w\.-]+@[\w\.-]+\<close>\<close>

definition email_re :: rx where
  "email_re =
     seqs [Many (\<lambda>c. is_word c \<or> c = CHR ''.'' \<or> c = CHR ''-'') 1, Chr (\<lambda>c. c = CHR ''@''),
           Many (\<lambda>c. is_word c \<or> c = CHR ''.'' \<or> c = CHR ''-'') 1]"

text \<open>\<open>\+?\d[\d -]{8,}\d\<close>\<close>

definition phone_re :: rx where
  "phone_re =
     seqs [Upto (Chr (\<lambda>c. c = CHR ''+'')) 0 1, Chr is_digit,
           Many (\<lambda>c. is_digit c \<or> c = CHR '' '' \<or> c = CHR ''-'') 8, Chr is_digit]"

text \<open>\<open>linkedin\.com|github\.com\<close>\<close>

definition profile_re :: rx where
  "profile_re = Alt (lit ''linkedin.com'') (lit ''github.com'')"

definition check_contact_info :: "string \<Rightarrow> real" where
  "check_contact_info text =
     (let contact_items = (0::nat);
          contact_items = (if re_search email_re text \<noteq> None then contact_items + 1 else contact_items);
          contact_items = (if re_search phone_re text \<noteq> None then contact_items + 1 else contact_items);
          contact_items = (if re_search profile_re text \<noteq> None then contact_items + 1 else contact_items)
      in real contact_items / 3)"

definition word_count :: "string \<Rightarrow> nat" where
  "word_count text = length (findall word_re text)"

definition check_length :: "string \<Rightarrow> real" where
  "check_length text =
     (if 400 \<le> word_count text \<and> word_count text \<le> 800 then 1
      else if (300 \<le> word_count text \<and> word_count text < 400)
              \<or> (800 < word_count text \<and> word_count text \<le> 1000) then 1 / 2
      else 0)"

fun scores :: "string list \<Rightarrow> string \<Rightarrow> feature \<Rightarrow> real" where
  "scores stop_words text Keyword_Density = calculate_keyword_density stop_words text"
| "scores stop_words text Action_Verbs = count_action_verbs text"
| "scores stop_words text Quantifiable_Results = check_quantifiable_results text"
| "scores stop_words text Structure = evaluate_structure text"
| "scores stop_words text Contact_Info = check_contact_info text"
| "scores stop_words text Length = check_length text"

definition calculate_ats_score :: "string list \<Rightarrow> string \<Rightarrow> real" where
  "calculate_ats_score stop_words text =
     min (sum_list (map (\<lambda>(param, weight). scores stop_words text param * weight) ATS_PARAMETERS)
            * 100) 100"

text \<open>
  The feedback lines, by what they say: the three overall tiers, one line per weak
  sub-score, and the two length lines
  (\<open>Resume is too short - aim for 400-800 words.\<close> and
  \<open>Resume is too long - keep under 800 words.\<close>).
\<close>

datatype feedback_line =
    NeedsOptimization | Decent | Excellent
  | MoreKeywords | MoreActionVerbs | MoreQuantified | BetterStructure | MoreContact
  | TooShort | TooLong

definition generate_feedback :: "string list \<Rightarrow> real \<Rightarrow> string \<Rightarrow> feedback_line list" where
  "generate_feedback stop_words score text =
     (if score < 60 then [NeedsOptimization] else if score < 80 then [Decent] else [Excellent])
     @ (if calculate_keyword_density stop_words text < 1 / 2 then [MoreKeywords] else [])
     @ (if count_action_verbs text < 1 / 2 then [MoreActionVerbs] else [])
     @ (if check_quantifiable_results text < 1 / 2 then [MoreQuantified] else [])
     @ (if evaluate_structure text < 7 / 10 then [BetterStructure] else [])
     @ (if check_contact_info text < 1 then [MoreContact] else [])
     @ (if word_count text < 400 then [TooShort]
        else if word_count text > 800 then [TooLong] else [])"

section \<open>Contact extraction\<close>

definition extract_email :: "string \<Rightarrow> string" where
  "extract_email text = (case re_search email_re text of Some m \<Rightarrow> m | None \<Rightarrow> ''Not Found'')"

text \<open>\<open>(\+?\d{10,13})\<close>\<close>

definition phone_number_re :: rx where
  "phone_number_re = Seq (Upto (Chr (\<lambda>c. c = CHR ''+'')) 0 1) (Upto (Chr is_digit) 10 13)"

definition extract_phone :: "string \<Rightarrow> string" where
  "extract_phone text =
     (case re_search phone_number_re text of Some m \<Rightarrow> m | None \<Rightarrow> ''Not Found'')"

text \<open>\<open>\b([A-Z][A-Z]+(?:\s+[A-Z][A-Z]+){1,3})\b\<close>\<close>

definition name_pattern :: rx where
  "name_pattern =
     seqs [Bnd, Chr is_upper, Many is_upper 1,
           Upto (seqs [Many is_space 1, Chr is_upper, Many is_upper 1]) 1 3,
           Bnd]"

definition blacklist :: "string list" where
  "blacklist = [''RESUME'', ''SUMMARY'', ''SKILLS'', ''PROJECTS'', ''EDUCATION'',
                ''EXPERIENCE'', ''CERTIFICATIONS'']"

text \<open>The loop over the matches: the first one that passes both tests is returned.\<close>

fun first_valid :: "string list \<Rightarrow> string" where
  "first_valid [] = ''Not Found''"
| "first_valid (m # ms) =
     (if list_all (\<lambda>word. word \<notin> set blacklist) (split_ws m)
      then (if re_search (Chr is_digit) m = None then title m else first_valid ms)
      else first_valid ms)"

definition extract_name :: "string \<Rightarrow> string" where
  "extract_name text = first_valid (findall name_pattern text)"

section \<open>Job match\<close>

datatype py_error = ZeroDivisionError

text \<open>
  \<open>round(x, 2)\<close>: to the nearest multiple of \<open>1/100\<close>, a tie to the even one.
\<close>

definition round_half_even :: "real \<Rightarrow> int" where
  "round_half_even x =
     (if x - of_int \<lfloor>x\<rfloor> < 1 / 2 then \<lfloor>x\<rfloor>
      else if 1 / 2 < x - of_int \<lfloor>x\<rfloor> then \<lfloor>x\<rfloor> + 1
      else if even \<lfloor>x\<rfloor> then \<lfloor>x\<rfloor> else \<lfloor>x\<rfloor> + 1)"

definition round2 :: "real \<Rightarrow> real" where
  "round2 x = of_int (round_half_even (x * 100)) / 100"

definition resume_words :: "string \<Rightarrow> string set" where
  "resume_words resume_text = set (split_ws (lower resume_text))"

definition job_desc_words :: "string \<Rightarrow> string set" where
  "job_desc_words job_desc_text = set (split_ws (lower job_desc_text))"

definition common_words :: "string \<Rightarrow> string \<Rightarrow> string set" where
  "common_words resume_text job_desc_text =
     resume_words resume_text \<inter> job_desc_words job_desc_text"

definition calculate_match_score :: "string \<Rightarrow> string \<Rightarrow> py_error + real" where
  "calculate_match_score resume_text job_desc_text =
     (if card (job_desc_words job_desc_text) = 0 then Inl ZeroDivisionError
      else Inr (min (round2 (real (card (common_words resume_text job_desc_text))
                              / real (card (job_desc_words job_desc_text)) * 100)) 100))"

section \<open>Rules for evaluating the matcher\<close>

lemmas char_class_defs =
  is_digit_def is_upper_def is_lower_def is_alpha_def is_word_def is_space_def
  lower_char_def upper_char_def

lemma upto_rx_numeral [simp]:
  "upto_rx f lo (numeral k) s =
     concat (map (upto_rx f (lo - 1) (pred_numeral k)) (f s)) @ (if lo = 0 then [s] else [])"
  by (simp add: numeral_eq_Suc)

lemma upto_rx_one [simp]:
  "upto_rx f lo 1 s = concat (map (upto_rx f (lo - 1) 0) (f s)) @ (if lo = 0 then [s] else [])"
  by (metis One_nat_def upto_rx.simps(2))

section \<open>The sub-scores and the ATS score stay in range\<close>

lemma calculate_keyword_density_bounds:
  "0 \<le> calculate_keyword_density sw text \<and> calculate_keyword_density sw text \<le> 1"
  by (simp add: calculate_keyword_density_def Let_def)

lemma count_action_verbs_bounds:
  "0 \<le> count_action_verbs text \<and> count_action_verbs text \<le> 1"
  by (simp add: count_action_verbs_def Let_def)

lemma check_quantifiable_results_bounds:
  "0 \<le> check_quantifiable_results text \<and> check_quantifiable_results text \<le> 1"
  by (simp add: check_quantifiable_results_def Let_def)

lemma fold_sections_nonneg:
  "0 \<le> (a::real) \<Longrightarrow>
   0 \<le> fold (\<lambda>section score. if P section then score + 2 / 10 else score) xs a"
  by (induction xs arbitrary: a) auto

lemma evaluate_structure_bounds:
  "0 \<le> evaluate_structure text \<and> evaluate_structure text \<le> 1"
proof -
  have "0 \<le> fold (\<lambda>section score.
                 if re_search (section_re section) text \<noteq> None then score + 2 / 10 else score)
               sections (0::real)"
    by (rule fold_sections_nonneg) simp
  then show ?thesis
    by (simp add: evaluate_structure_def Let_def)
qed

lemma check_contact_info_bounds:
  "0 \<le> check_contact_info text \<and> check_contact_info text \<le> 1"
  by (simp add: check_contact_info_def Let_def)

lemma check_length_bounds:
  "0 \<le> check_length text \<and> check_length text \<le> 1"
  by (simp add: check_length_def)

lemma weighted_sum_unfold:
  "sum_list (map (\<lambda>(param, weight). scores sw text param * weight) ATS_PARAMETERS) =
     calculate_keyword_density sw text * (3 / 10) + count_action_verbs text * (15 / 100)
     + check_quantifiable_results text * (2 / 10) + evaluate_structure text * (15 / 100)
     + check_contact_info text * (1 / 10) + check_length text * (1 / 10)"
  by (simp add: ATS_PARAMETERS_def)

text \<open>
  C3. For every text and every stop-word list the ATS score lies between 0 and 100:
  every sub-score is non-negative, so the weighted sum is, and the final \<open>min\<close>
  caps it at 100.
\<close>

theorem ats_score_range:
  "0 \<le> calculate_ats_score sw text \<and> calculate_ats_score sw text \<le> 100"
proof -
  have "0 \<le> calculate_keyword_density sw text" "0 \<le> count_action_verbs text"
       "0 \<le> check_quantifiable_results text" "0 \<le> evaluate_structure text"
       "0 \<le> check_contact_info text" "0 \<le> check_length text"
    using calculate_keyword_density_bounds count_action_verbs_bounds
      check_quantifiable_results_bounds evaluate_structure_bounds check_contact_info_bounds
      check_length_bounds by blast+
  then have "0 \<le> sum_list (map (\<lambda>(param, weight). scores sw text param * weight) ATS_PARAMETERS)"
    unfolding weighted_sum_unfold by simp
  then show ?thesis
    by (simp add: calculate_ats_score_def)
qed

text \<open>
  C6. For every text each of the six extractors (keyword density, action verbs,
  quantifiable results, structure, contact info, length) returns a value in \<open>[0, 1]\<close>.
\<close>

theorem sub_scores_in_unit_interval:
  "(0 \<le> calculate_keyword_density sw text \<and> calculate_keyword_density sw text \<le> 1)
   \<and> (0 \<le> count_action_verbs text \<and> count_action_verbs text \<le> 1)
   \<and> (0 \<le> check_quantifiable_results text \<and> check_quantifiable_results text \<le> 1)
   \<and> (0 \<le> evaluate_structure text \<and> evaluate_structure text \<le> 1)
   \<and> (0 \<le> check_contact_info text \<and> check_contact_info text \<le> 1)
   \<and> (0 \<le> check_length text \<and> check_length text \<le> 1)"
  using calculate_keyword_density_bounds count_action_verbs_bounds
    check_quantifiable_results_bounds evaluate_structure_bounds check_contact_info_bounds
    check_length_bounds by blast

section \<open>The empty text\<close>

lemma findall_word_re_Nil: "findall word_re [] = []"
  by (simp add: findall_def word_re_def)

lemma calculate_keyword_density_Nil: "calculate_keyword_density sw [] = 0"
  by (simp add: calculate_keyword_density_def findall_word_re_Nil)

lemma count_action_verbs_Nil: "count_action_verbs [] = 0"
  by (simp add: count_action_verbs_def lower_def ACTION_VERBS_def)

lemma check_quantifiable_results_Nil: "check_quantifiable_results [] = 0"
  by (simp add: check_quantifiable_results_def findall_def quantifier_re_def)

lemma section_re_Nil: "re_search (section_re section) [] = None"
  by (simp add: re_search_def section_re_def)

lemma date_range_re_Nil: "re_search date_range_re [] = None"
  by (simp add: re_search_def date_range_re_def)

lemma evaluate_structure_Nil: "evaluate_structure [] = 0"
  by (simp add: evaluate_structure_def section_re_Nil date_range_re_Nil sections_def)

lemma check_contact_info_Nil: "check_contact_info [] = 0"
  by (simp add: check_contact_info_def re_search_def email_re_def phone_re_def profile_re_def
      lit_def)

lemma check_length_Nil: "check_length [] = 0"
  by (simp add: check_length_def word_count_def findall_word_re_Nil)

text \<open>
  C8. On the empty string the ATS score is exactly 0 and each of the six extractors
  returns 0. None of these functions has an error result: no path of theirs raises.
\<close>

theorem ats_score_empty_text:
  "calculate_ats_score sw [] = 0
   \<and> calculate_keyword_density sw [] = 0 \<and> count_action_verbs [] = 0
   \<and> check_quantifiable_results [] = 0 \<and> evaluate_structure [] = 0
   \<and> check_contact_info [] = 0 \<and> check_length [] = 0"
  by (simp add: calculate_ats_score_def weighted_sum_unfold calculate_keyword_density_Nil
      count_action_verbs_Nil check_quantifiable_results_Nil evaluate_structure_Nil
      check_contact_info_Nil check_length_Nil)

section \<open>Job match: tokens, case and the formula\<close>

lemma is_space_lower_char: "is_space (lower_char c) = is_space c"
  by (auto simp add: is_space_def lower_char_def)

lemma takeWhile_lower:
  "takeWhile (\<lambda>x. \<not> is_space x) (lower cs) = lower (takeWhile (\<lambda>x. \<not> is_space x) cs)"
  by (induction cs) (simp_all add: lower_def is_space_lower_char)

lemma dropWhile_lower:
  "dropWhile (\<lambda>x. \<not> is_space x) (lower cs) = lower (dropWhile (\<lambda>x. \<not> is_space x) cs)"
  by (induction cs) (simp_all add: lower_def is_space_lower_char)

lemma lower_Cons: "lower (c # cs) = lower_char c # lower cs"
  by (simp add: lower_def)

lemma split_ws_lower: "split_ws (lower t) = map lower (split_ws t)"
proof (induction t rule: split_ws.induct)
  case 1
  then show ?case by (simp add: lower_def)
next
  case (2 c cs)
  then show ?case
    by (simp add: lower_Cons is_space_lower_char takeWhile_lower dropWhile_lower)
qed


lemmas match_score_eval =
  calculate_match_score_def job_desc_words_def common_words_def resume_words_def
  lower_def char_class_defs round2_def round_half_even_def

text \<open>
  C2, as the code has it. The scorer lower-cases each text before it splits it: the
  two sets it intersects hold the lower-cased whitespace-separated words of the
  texts.
\<close>

theorem match_tokens_are_lower_cased:
  "resume_words resume_text = lower ` set (split_ws resume_text)
   \<and> job_desc_words job_desc_text = lower ` set (split_ws job_desc_text)"
  by (simp add: resume_words_def job_desc_words_def split_ws_lower)

text \<open>
  C2 as stated fails: for the resume \<open>Python SQL\<close> the scorer's set is
  \<open>{python, sql}\<close>, not the original-case words \<open>{Python, SQL}\<close>; against the
  job description \<open>python sql\<close> it scores 100, where the original-case sets share
  no word.
\<close>

theorem match_tokens_original_case_counterexample:
  "resume_words ''Python SQL'' = {''python'', ''sql''}
   \<and> set (split_ws ''Python SQL'') = {''Python'', ''SQL''}
   \<and> ''python'' \<in> resume_words ''Python SQL''
   \<and> ''python'' \<notin> set (split_ws ''Python SQL'')
   \<and> calculate_match_score ''Python SQL'' ''python sql'' = Inr 100
   \<and> set (split_ws ''Python SQL'') \<inter> set (split_ws ''python sql'') = {}"
  by (simp add: match_score_eval)






section \<open>The match scorer on an empty job description\<close>

text \<open>
  C1. With an empty job description the set of its words is empty, and the division
  by its size raises \<open>ZeroDivisionError\<close>, whatever the resume text: the scorer
  returns no score there.
\<close>

theorem match_score_empty_job_desc:
  "calculate_match_score resume_text [] = Inl ZeroDivisionError"
  by (simp add: calculate_match_score_def job_desc_words_def lower_def)

end
